theory Spec2Isabelle
  imports Complex_Main "HOL-Library.Word" "HOL-Library.Sublist"
begin

section \<open>Data model (types/index.ts)\<close>

text \<open>
  The DTOs mirrored from the backend. Identifiers and counters are JavaScript numbers that
  hold integers, modelled as \<open>int\<close> (or \<open>nat\<close> for sizes); \<open>temperature\<close> is a
  real. A field \<open>T | null\<close> is a \<open>T option\<close>; an optional field \<open>f?: T\<close> is an
  option as well (absent is \<open>None\<close>). The field \<open>id\<close> is written \<open>id_msg\<close> and
  \<open>id_chat\<close>, and the timestamps of a chat carry the suffix \<open>_chat\<close>, since a
  record field is a constant and \<open>id\<close> is one of HOL already.
\<close>

datatype MessageRole = user | assistant

datatype MessageType = text_type | image_type | video_type | audio_type | document_type | mixed_type

datatype FileType = image | video | audio | document

record FileMetadata =
  file_id :: string
  filename :: string
  file_type :: FileType
  file_size :: nat
  mime_type :: string
  url :: "string option"

record ChatMessage =
  id_msg :: int
  chat_id :: int
  role :: MessageRole
  content :: string
  message_type :: MessageType
  files :: "FileMetadata list option"
  metadata_json :: "string option"
  processing_time_ms :: "nat option"
  created_at :: string
  updated_at :: string
  is_deleted :: bool
  isEditing :: "bool option"
  isStreaming :: "bool option"

record Chat =
  id_chat :: int
  user_id :: int
  title :: string
  description :: "string option"
  web_search_enabled :: bool
  message_limit :: int
  temperature :: real
  gigachat_model :: string
  image_generation_enabled :: bool
  voice_response_enabled :: bool
  max_tokens :: "int option"
  created_at_chat :: string
  updated_at_chat :: string
  message_count :: "int option"
  last_message_at :: "string option option"

text \<open>
  \<open>Partial<ChatMessage>\<close> and \<open>Partial<Chat>\<close>: every field may be absent. The object
  spread \<open>{ ...x, ...updates }\<close> keeps a field of \<open>x\<close> unless \<open>updates\<close> has it.
\<close>

record ChatMessage_partial =
  upd_id_msg :: "int option"
  upd_chat_id :: "int option"
  upd_role :: "MessageRole option"
  upd_content :: "string option"
  upd_message_type :: "MessageType option"
  upd_files :: "FileMetadata list option option"
  upd_metadata_json :: "string option option"
  upd_processing_time_ms :: "nat option option"
  upd_created_at :: "string option"
  upd_updated_at :: "string option"
  upd_is_deleted :: "bool option"
  upd_isEditing :: "bool option"
  upd_isStreaming :: "bool option"

record Chat_partial =
  new_id_chat :: "int option"
  new_user_id :: "int option"
  new_title :: "string option"
  new_description :: "string option option"
  new_web_search_enabled :: "bool option"
  new_message_limit :: "int option"
  new_temperature :: "real option"
  new_gigachat_model :: "string option"
  new_image_generation_enabled :: "bool option"
  new_voice_response_enabled :: "bool option"
  new_max_tokens :: "int option option"
  new_created_at_chat :: "string option"
  new_updated_at_chat :: "string option"
  new_message_count :: "int option"
  new_last_message_at :: "string option option"

definition overridden :: "'a \<Rightarrow> 'a option \<Rightarrow> 'a" where
  "overridden old upd = (case upd of None \<Rightarrow> old | Some v \<Rightarrow> v)"

definition spread_msg :: "ChatMessage \<Rightarrow> ChatMessage_partial \<Rightarrow> ChatMessage" where
  "spread_msg msg updates =
     \<lparr> id_msg = overridden (id_msg msg) (upd_id_msg updates),
       chat_id = overridden (chat_id msg) (upd_chat_id updates),
       role = overridden (role msg) (upd_role updates),
       content = overridden (content msg) (upd_content updates),
       message_type = overridden (message_type msg) (upd_message_type updates),
       files = overridden (files msg) (upd_files updates),
       metadata_json = overridden (metadata_json msg) (upd_metadata_json updates),
       processing_time_ms = overridden (processing_time_ms msg) (upd_processing_time_ms updates),
       created_at = overridden (created_at msg) (upd_created_at updates),
       updated_at = overridden (updated_at msg) (upd_updated_at updates),
       is_deleted = overridden (is_deleted msg) (upd_is_deleted updates),
       isEditing = (case upd_isEditing updates of None \<Rightarrow> isEditing msg | Some b \<Rightarrow> Some b),
       isStreaming = (case upd_isStreaming updates of None \<Rightarrow> isStreaming msg | Some b \<Rightarrow> Some b) \<rparr>"

definition spread_chat :: "Chat \<Rightarrow> Chat_partial \<Rightarrow> Chat" where
  "spread_chat chat updates =
     \<lparr> id_chat = overridden (id_chat chat) (new_id_chat updates),
       user_id = overridden (user_id chat) (new_user_id updates),
       title = overridden (title chat) (new_title updates),
       description = overridden (description chat) (new_description updates),
       web_search_enabled = overridden (web_search_enabled chat) (new_web_search_enabled updates),
       message_limit = overridden (message_limit chat) (new_message_limit updates),
       temperature = overridden (temperature chat) (new_temperature updates),
       gigachat_model = overridden (gigachat_model chat) (new_gigachat_model updates),
       image_generation_enabled =
         overridden (image_generation_enabled chat) (new_image_generation_enabled updates),
       voice_response_enabled =
         overridden (voice_response_enabled chat) (new_voice_response_enabled updates),
       max_tokens = overridden (max_tokens chat) (new_max_tokens updates),
       created_at_chat = overridden (created_at_chat chat) (new_created_at_chat updates),
       updated_at_chat = overridden (updated_at_chat chat) (new_updated_at_chat updates),
       message_count =
         (case new_message_count updates of None \<Rightarrow> message_count chat | Some n \<Rightarrow> Some n),
       last_message_at =
         (case new_last_message_at updates of None \<Rightarrow> last_message_at chat | Some t \<Rightarrow> Some t) \<rparr>"

text \<open>The empty objects \<open>{}\<close> of the two partial types.\<close>

definition no_updates :: ChatMessage_partial where
  "no_updates =
     \<lparr> upd_id_msg = None, upd_chat_id = None, upd_role = None, upd_content = None,
       upd_message_type = None, upd_files = None, upd_metadata_json = None,
       upd_processing_time_ms = None, upd_created_at = None, upd_updated_at = None,
       upd_is_deleted = None, upd_isEditing = None, upd_isStreaming = None \<rparr>"

definition no_changes :: Chat_partial where
  "no_changes =
     \<lparr> new_id_chat = None, new_user_id = None, new_title = None, new_description = None,
       new_web_search_enabled = None, new_message_limit = None, new_temperature = None,
       new_gigachat_model = None, new_image_generation_enabled = None,
       new_voice_response_enabled = None, new_max_tokens = None, new_created_at_chat = None,
       new_updated_at_chat = None, new_message_count = None, new_last_message_at = None \<rparr>"


section \<open>The chat store (stores/chatStore.ts)\<close>

record ChatState =
  chats :: "Chat list"
  currentChat :: "Chat option"
  messages :: "ChatMessage list"
  isLoadingChats :: bool
  isLoadingMessages :: bool
  isSending :: bool

definition initial_state :: ChatState where
  "initial_state =
     \<lparr> chats = [], currentChat = None, messages = [], isLoadingChats = False,
       isLoadingMessages = False, isSending = False \<rparr>"

definition setChats :: "Chat list \<Rightarrow> ChatState \<Rightarrow> ChatState" where
  "setChats cs state = state\<lparr>chats := cs\<rparr>"

definition addChat :: "Chat \<Rightarrow> ChatState \<Rightarrow> ChatState" where
  "addChat chat state = state\<lparr>chats := chat # chats state\<rparr>"

text \<open>
  \<open>state.currentChat?.id === chatId\<close> is false when \<open>currentChat\<close> is null: the optional
  chain gives \<open>undefined\<close>, which is not strictly equal to a number.
\<close>

definition current_is :: "int \<Rightarrow> ChatState \<Rightarrow> bool" where
  "current_is chatId state =
     (case currentChat state of None \<Rightarrow> False | Some c \<Rightarrow> id_chat c = chatId)"

definition updateChat :: "int \<Rightarrow> Chat_partial \<Rightarrow> ChatState \<Rightarrow> ChatState" where
  "updateChat chatId updates state =
     state\<lparr> chats :=
              map (\<lambda>chat. if id_chat chat = chatId then spread_chat chat updates else chat)
                (chats state),
            currentChat :=
              (if current_is chatId state
               then map_option (\<lambda>c. spread_chat c updates) (currentChat state)
               else currentChat state) \<rparr>"

definition removeChat :: "int \<Rightarrow> ChatState \<Rightarrow> ChatState" where
  "removeChat chatId state =
     state\<lparr> chats := filter (\<lambda>chat. id_chat chat \<noteq> chatId) (chats state),
            currentChat := (if current_is chatId state then None else currentChat state),
            messages := (if current_is chatId state then [] else messages state) \<rparr>"

definition setCurrentChat :: "Chat option \<Rightarrow> ChatState \<Rightarrow> ChatState" where
  "setCurrentChat chat state = state\<lparr>currentChat := chat\<rparr>"

definition setMessages :: "ChatMessage list \<Rightarrow> ChatState \<Rightarrow> ChatState" where
  "setMessages ms state = state\<lparr>messages := ms\<rparr>"

definition addMessage :: "ChatMessage \<Rightarrow> ChatState \<Rightarrow> ChatState" where
  "addMessage message state = state\<lparr>messages := messages state @ [message]\<rparr>"

definition updateMessage :: "int \<Rightarrow> ChatMessage_partial \<Rightarrow> ChatState \<Rightarrow> ChatState" where
  "updateMessage messageId updates state =
     state\<lparr> messages :=
              map (\<lambda>msg. if id_msg msg = messageId then spread_msg msg updates else msg)
                (messages state) \<rparr>"

definition removeMessage :: "int \<Rightarrow> ChatState \<Rightarrow> ChatState" where
  "removeMessage messageId state =
     state\<lparr>messages := filter (\<lambda>msg. id_msg msg \<noteq> messageId) (messages state)\<rparr>"

definition setLoadingChats :: "bool \<Rightarrow> ChatState \<Rightarrow> ChatState" where
  "setLoadingChats b state = state\<lparr>isLoadingChats := b\<rparr>"

definition setLoadingMessages :: "bool \<Rightarrow> ChatState \<Rightarrow> ChatState" where
  "setLoadingMessages b state = state\<lparr>isLoadingMessages := b\<rparr>"

definition setSending :: "bool \<Rightarrow> ChatState \<Rightarrow> ChatState" where
  "setSending b state = state\<lparr>isSending := b\<rparr>"

definition clear :: "ChatState \<Rightarrow> ChatState" where
  "clear state = initial_state"


section \<open>The message history (components/MessageList.tsx, MessageItem.tsx)\<close>

text \<open>
  \<open>MessageItem\<close> returns null for a message flagged \<open>is_deleted\<close> and an element showing
  the message otherwise. \<open>MessageList\<close> takes the messages as a prop and the loading flag
  from the store; it returns the loading placeholder, the empty placeholder or the
  container of the items, in this order of tests.
\<close>

definition MessageItem :: "ChatMessage \<Rightarrow> ChatMessage option" where
  "MessageItem message = (if is_deleted message then None else Some message)"

datatype message_list_view =
    loading_state
  | empty_state
  | messages_container "ChatMessage option list"

definition visibleMessages :: "ChatMessage list \<Rightarrow> ChatMessage list" where
  "visibleMessages msgs = filter (\<lambda>m. \<not> is_deleted m) msgs"

definition MessageList :: "ChatState \<Rightarrow> ChatMessage list \<Rightarrow> message_list_view" where
  "MessageList store msgs =
     (if isLoadingMessages store then loading_state
      else if length (visibleMessages msgs) = 0 then empty_state
      else messages_container (map MessageItem (visibleMessages msgs)))"

text \<open>The messages a view shows on screen: the items of the container that are not null.\<close>

fun shown :: "message_list_view \<Rightarrow> ChatMessage list" where
  "shown loading_state = []"
| "shown empty_state = []"
| "shown (messages_container items) = concat (map (\<lambda>item. case item of None \<Rightarrow> [] | Some m \<Rightarrow> [m]) items)"


section \<open>The temperature controls (components/ChatSettings.tsx, ComposerControls.tsx)\<close>

text \<open>
  Each control is an \<open>input type="range"\<close>; its value is always a valid number, so
  \<open>parseFloat(e.target.value)\<close> is taken as a real \<open>v\<close>. The settings dialog
  stores the new temperature in its local settings, which \<open>handleSave\<close> sends whole; the
  composer controls store it locally and send it at once in a patch (\<open>persist\<close>).
  The repository holds two versions of the composer controls: one clamps the value as
  the dialog does, the other (the one that shows which field is being saved, with a
  slider from 0 to 2) stores and sends the parsed value as it is.
\<close>

record temperature_change =
  stored_temperature :: real
  sent_patch :: "Chat_partial option"

definition ChatSettings_temperature_onChange :: "real \<Rightarrow> temperature_change" where
  "ChatSettings_temperature_onChange v =
     \<lparr> stored_temperature = min 1 (max 0 v), sent_patch = None \<rparr>"

definition ComposerControls_temperature_onChange :: "real \<Rightarrow> temperature_change" where
  "ComposerControls_temperature_onChange v =
     (let val = min 1 (max 0 v)
      in \<lparr> stored_temperature = val,
           sent_patch = Some (no_changes\<lparr>new_temperature := Some val\<rparr>) \<rparr>)"

definition ComposerControls_saving_temperature_onChange :: "real \<Rightarrow> temperature_change" where
  "ComposerControls_saving_temperature_onChange v =
     (let val = v
      in \<lparr> stored_temperature = val,
           sent_patch = Some (no_changes\<lparr>new_temperature := Some val\<rparr>) \<rparr>)"

text \<open>The temperature that reaches the server with a change, if the change sends one.\<close>

definition sent_temperature :: "temperature_change \<Rightarrow> real option" where
  "sent_temperature c = (case sent_patch c of None \<Rightarrow> None | Some p \<Rightarrow> new_temperature p)"

section \<open>The composer (components/MessageInput.tsx)\<close>

text \<open>
  The component keeps the draft text and the selected files (each with its preview URL) in
  local state. What the browser and the backend decide is an explicit environment: the
  clock reading when the component mounted (\<open>Date.now()\<close>, memoized into
  \<open>nextTempId\<close>), the value of \<open>Math.random()\<close>, the two readings of
  \<open>new Date().toISOString()\<close>, and the outcome of every API call (\<open>Inl\<close> is a
  rejected promise). The outcome of the \<open>k\<close>-th \<open>uploadFile\<close> call of a submission is
  \<open>uploadFile_result env k\<close>.
\<close>

datatype error = ApiError string | RangeError

record File =
  name :: string
  lastModified :: int
  type_file :: string
  size_file :: nat

record upload_response =
  file_id_uploaded :: string
  url_uploaded :: string

record MessageCreateRequest =
  content_sent :: string
  files_sent :: "string list option"

record MessageUpdateRequest =
  content_patch :: string
  files_patch :: "string list"

record MessageInput_state =
  content_local :: string
  files_local :: "(File \<times> string) list"

record browser =
  mounted_at :: int
  random :: real
  clock_created :: string
  clock_updated :: string
  uploadFile_result :: "nat \<Rightarrow> error + upload_response"
  sendMessage_result :: "error + ChatMessage"
  getChatMessages_result :: "error + ChatMessage list"

text \<open>
  \<open>inferFileType\<close> tests the prefixes in the source's order. \<open>trim\<close> is
  \<open>String.prototype.trim\<close> on the white space of Latin-1. \<open>number_text\<close> is the
  decimal text a template literal gives an integer.
\<close>

definition inferFileType :: "string \<Rightarrow> FileType" where
  "inferFileType mime =
     (if prefix ''image/'' mime then image
      else if prefix ''video/'' mime then video
      else if prefix ''audio/'' mime then audio
      else document)"

fun as_message_type :: "FileType \<Rightarrow> MessageType" where
  "as_message_type image = image_type"
| "as_message_type video = video_type"
| "as_message_type audio = audio_type"
| "as_message_type document = document_type"

definition is_space :: "char \<Rightarrow> bool" where
  "is_space c = (of_char c \<in> {9, 10, 11, 12, 13, 32, 160 :: nat})"

definition trim :: "string \<Rightarrow> string" where
  "trim s = rev (dropWhile is_space (rev (dropWhile is_space s)))"

fun decimal :: "nat \<Rightarrow> string" where
  "decimal n = (if n < 10 then [''0123456789'' ! n] else decimal (n div 10) @ [''0123456789'' ! (n mod 10)])"

definition number_text :: "int \<Rightarrow> string" where
  "number_text i = (if i < 0 then CHR ''-'' # decimal (nat (- i)) else decimal (nat i))"

definition nextTempId :: "browser \<Rightarrow> int" where
  "nextTempId env = mounted_at env * (- 1)"

definition tempId :: "browser \<Rightarrow> int" where
  "tempId env = nextTempId env + \<lfloor>random env * 1000\<rfloor>"


text \<open>
  A handler runs against the store and leaves a trace: the store actions it dispatched, the
  API requests it issued and how each returned, and the alerts it raised, in the order in
  which they happened. Every \<open>await\<close> is a \<open>Request\<close> followed by \<open>Resolved\<close> or
  \<open>Rejected\<close>. \<open>Alert err\<close> is \<open>alert(apiErrorMessage(err))\<close>;
  \<open>Alert_empty_message\<close> is the fixed notice of the message editor.
\<close>

datatype request =
    uploadFile_call File
  | sendMessage_call int MessageCreateRequest
  | getChatMessages_call int
  | updateMessage_call int MessageUpdateRequest
  | deleteFile_call string

datatype action =
    setSending_action bool
  | addMessage_action ChatMessage
  | updateMessage_action int ChatMessage_partial
  | removeMessage_action int
  | setMessages_action "ChatMessage list"

fun dispatch :: "action \<Rightarrow> ChatState \<Rightarrow> ChatState" where
  "dispatch (setSending_action b) = setSending b"
| "dispatch (addMessage_action m) = addMessage m"
| "dispatch (updateMessage_action i u) = updateMessage i u"
| "dispatch (removeMessage_action i) = removeMessage i"
| "dispatch (setMessages_action ms) = setMessages ms"

datatype event =
    Mutation action
  | Request request
  | Resolved
  | Rejected error
  | Alert error
  | Alert_empty_message

type_synonym run = "ChatState \<times> event list"

definition mutate :: "action \<Rightarrow> run \<Rightarrow> run" where
  "mutate a r = (dispatch a (fst r), snd r @ [Mutation a])"

definition emit :: "event \<Rightarrow> run \<Rightarrow> run" where
  "emit e r = (fst r, snd r @ [e])"

text \<open>
  \<open>handleSubmit\<close>: the guard, the optimistic message, the \<open>try\<close> block (the upload
  loop, \<open>sendMessage\<close>, the two store updates, the refresh), the \<open>catch\<close> block and
  the \<open>finally\<close> block. The result is the new local state and the run.
\<close>

definition optimisticFiles :: "MessageInput_state \<Rightarrow> FileMetadata list" where
  "optimisticFiles local =
     map (\<lambda>(file, previewUrl).
            \<lparr> file_id = ''temp-'' @ name file @ ''-'' @ number_text (lastModified file),
              filename = name file,
              file_type = inferFileType (type_file file),
              file_size = size_file file,
              mime_type = type_file file,
              url = Some previewUrl \<rparr>)
       (files_local local)"

definition optimisticUser :: "browser \<Rightarrow> int \<Rightarrow> MessageInput_state \<Rightarrow> ChatMessage" where
  "optimisticUser env chatId local =
     \<lparr> id_msg = tempId env,
       chat_id = chatId,
       role = user,
       content = trim (content_local local),
       message_type =
         (case optimisticFiles local of
            [] \<Rightarrow> text_type
          | first # _ \<Rightarrow> as_message_type (inferFileType (mime_type first))),
       files = (if optimisticFiles local = [] then None else Some (optimisticFiles local)),
       metadata_json = None,
       processing_time_ms = None,
       created_at = clock_created env,
       updated_at = clock_updated env,
       is_deleted = False,
       isEditing = None,
       isStreaming = None \<rparr>"

fun upload_loop ::
  "(nat \<Rightarrow> error + upload_response) \<Rightarrow> nat \<Rightarrow> (File \<times> string) list \<Rightarrow>
   string list \<Rightarrow> FileMetadata list \<Rightarrow> run \<Rightarrow>
   (error + string list \<times> FileMetadata list) \<times> run" where
  "upload_loop api k [] fileIds uploadedMetas r = (Inr (fileIds, uploadedMetas), r)"
| "upload_loop api k ((file, previewUrl) # rest) fileIds uploadedMetas r =
     (case api k of
        Inl err \<Rightarrow> (Inl err, emit (Rejected err) (emit (Request (uploadFile_call file)) r))
      | Inr uploaded \<Rightarrow>
          upload_loop api (Suc k) rest
            (fileIds @ [file_id_uploaded uploaded])
            (uploadedMetas @
               [\<lparr> file_id = file_id_uploaded uploaded,
                  filename = name file,
                  file_type = inferFileType (type_file file),
                  file_size = size_file file,
                  mime_type = type_file file,
                  url = Some (url_uploaded uploaded) \<rparr>])
            (emit Resolved (emit (Request (uploadFile_call file)) r)))"

definition try_submit ::
  "browser \<Rightarrow> int \<Rightarrow> MessageInput_state \<Rightarrow> run \<Rightarrow> (error + MessageInput_state) \<times> run" where
  "try_submit env chatId local r =
     (case upload_loop (uploadFile_result env) 0 (files_local local) [] [] r of
        (Inl err, r1) \<Rightarrow> (Inl err, r1)
      | (Inr (fileIds, uploadedMetas), r1) \<Rightarrow>
          (let r2 = emit (Request (sendMessage_call chatId
                       \<lparr> content_sent = trim (content_local local),
                         files_sent = (if fileIds = [] then None else Some fileIds) \<rparr>)) r1
           in case sendMessage_result env of
                Inl err \<Rightarrow> (Inl err, emit (Rejected err) r2)
              | Inr assistantMessage \<Rightarrow>
                  (let r3 = mutate (updateMessage_action (tempId env)
                              (no_updates\<lparr>upd_files :=
                                 Some (if uploadedMetas = [] then None else Some uploadedMetas)\<rparr>))
                              (emit Resolved r2);
                       r4 = mutate (addMessage_action assistantMessage) r3;
                       r5 = emit (Request (getChatMessages_call chatId)) r4
                   in case getChatMessages_result env of
                        Inl err \<Rightarrow> (Inl err, emit (Rejected err) r5)
                      | Inr refreshed \<Rightarrow>
                          (Inr \<lparr> content_local = [], files_local = [] \<rparr>,
                           mutate (setMessages_action refreshed) (emit Resolved r5)))))"

definition handleSubmit ::
  "browser \<Rightarrow> int \<Rightarrow> MessageInput_state \<Rightarrow> ChatState \<Rightarrow> MessageInput_state \<times> run" where
  "handleSubmit env chatId local store =
     (if trim (content_local local) = [] \<and> length (files_local local) = 0 then (local, (store, []))
      else
        (let r0 = mutate (setSending_action True) (store, []);
             r1 = mutate (addMessage_action (optimisticUser env chatId local)) r0
         in case try_submit env chatId local r1 of
              (Inr local', r2) \<Rightarrow> (local', mutate (setSending_action False) r2)
            | (Inl err, r2) \<Rightarrow>
                (local,
                 mutate (setSending_action False)
                   (emit (Alert err) (mutate (removeMessage_action (tempId env)) r2)))))"


section \<open>Voice recording: audioBufferToWav (components/MessageInput.tsx)\<close>






























subsection \<open>Reading a WAV file\<close>












section \<open>The message editor (components/MessageItem.tsx)\<close>

text \<open>
  The editor of a message keeps the edited text and the attachments kept so far in local
  state. \<open>handleSave\<close> reads the \<open>message\<close> prop and the store's \<open>messages\<close> as the
  component last rendered them (\<open>snapshot\<close>). The environment gives the outcome of the
  \<open>updateMessage\<close> call and of the \<open>k\<close>-th \<open>deleteFile\<close> call; a rejected
  \<open>deleteFile\<close> is caught inside the loop and only logged. \<open>findIndex\<close> gives
  \<open>None\<close> where JavaScript gives -1.
\<close>

record MessageItem_state =
  isEditing_local :: bool
  editedContent :: string
  editedFiles :: "FileMetadata list"
  isUpdating :: bool

record editor_env =
  updateMessage_result :: "error + ChatMessage"
  deleteFile_result :: "nat \<Rightarrow> error + unit"

fun findIndex :: "('a \<Rightarrow> bool) \<Rightarrow> 'a list \<Rightarrow> nat option" where
  "findIndex P [] = None"
| "findIndex P (x # xs) = (if P x then Some 0 else map_option Suc (findIndex P xs))"

definition isSameFiles :: "ChatMessage \<Rightarrow> FileMetadata list \<Rightarrow> bool" where
  "isSameFiles message edited =
     (let originalFiles = (case files message of None \<Rightarrow> [] | Some fs \<Rightarrow> fs)
      in length originalFiles = length edited
         \<and> list_all (\<lambda>file. list_ex (\<lambda>e. file_id e = file_id file) edited) originalFiles)"

definition removedFiles :: "ChatMessage \<Rightarrow> FileMetadata list \<Rightarrow> FileMetadata list" where
  "removedFiles message edited =
     filter (\<lambda>file. \<not> list_ex (\<lambda>e. file_id e = file_id file) edited)
       (case files message of None \<Rightarrow> [] | Some fs \<Rightarrow> fs)"

fun delete_loop :: "(nat \<Rightarrow> error + unit) \<Rightarrow> nat \<Rightarrow> FileMetadata list \<Rightarrow> run \<Rightarrow> run" where
  "delete_loop api k [] r = r"
| "delete_loop api k (f # rest) r =
     delete_loop api (Suc k) rest
       (emit (case api k of Inl err \<Rightarrow> Rejected err | Inr _ \<Rightarrow> Resolved)
          (emit (Request (deleteFile_call (file_id f))) r))"

definition mark_subsequent :: "ChatMessage \<Rightarrow> ChatMessage list \<Rightarrow> run \<Rightarrow> run" where
  "mark_subsequent message snapshot r =
     (case findIndex (\<lambda>m. id_msg m = id_msg message) snapshot of
        None \<Rightarrow> r
      | Some messageIndex \<Rightarrow>
          fold (\<lambda>m. mutate (updateMessage_action (id_msg m) (no_updates\<lparr>upd_is_deleted := Some True\<rparr>)))
            (drop (messageIndex + 1) snapshot) r)"

text \<open>
  \<open>handleSave\<close>: the two early returns, then \<open>updateMessage\<close> on the server, the
  deletion of the removed files, and the three store updates: the edited message, the
  flag \<open>is_deleted\<close> on every message of the snapshot after it, and the new answer.
\<close>

definition handleSave ::
  "editor_env \<Rightarrow> ChatMessage \<Rightarrow> ChatMessage list \<Rightarrow> MessageItem_state \<Rightarrow> ChatState \<Rightarrow>
   MessageItem_state \<times> run" where
  "handleSave env message snapshot local store =
     (let trimmed = trim (editedContent local) in
      if trimmed = [] \<and> length (editedFiles local) = 0
      then (local, (store, [Alert_empty_message]))
      else if trimmed = content message \<and> isSameFiles message (editedFiles local)
      then (local\<lparr>isEditing_local := False\<rparr>, (store, []))
      else
        (let r1 = emit (Request (updateMessage_call (id_msg message)
                     \<lparr> content_patch = trimmed,
                       files_patch = map file_id (editedFiles local) \<rparr>)) (store, [])
         in case updateMessage_result env of
              Inl err \<Rightarrow>
                (local\<lparr>isUpdating := False\<rparr>, emit (Alert err) (emit (Rejected err) r1))
            | Inr newAssistantMessage \<Rightarrow>
                (let r2 = delete_loop (deleteFile_result env) 0
                            (removedFiles message (editedFiles local)) (emit Resolved r1);
                     r3 = mutate (updateMessage_action (id_msg message)
                            (no_updates\<lparr> upd_content := Some trimmed,
                                          upd_files := Some (Some (editedFiles local)),
                                          upd_isEditing := Some False \<rparr>)) r2;
                     r4 = mark_subsequent message snapshot r3;
                     r5 = mutate (addMessage_action newAssistantMessage) r4
                 in (local\<lparr>isEditing_local := False, isUpdating := False\<rparr>, r5))))"



section \<open>Observations on a submission\<close>

text \<open>
  The events of the upload loop alone, and whether a submission meets a rejected upload
  or a rejected \<open>sendMessage\<close>.
\<close>

fun upload_events :: "(nat \<Rightarrow> error + upload_response) \<Rightarrow> nat \<Rightarrow> (File \<times> string) list \<Rightarrow> event list" where
  "upload_events api k [] = []"
| "upload_events api k ((file, previewUrl) # rest) =
     (case api k of
        Inl err \<Rightarrow> [Request (uploadFile_call file), Rejected err]
      | Inr uploaded \<Rightarrow> Request (uploadFile_call file) # Resolved # upload_events api (Suc k) rest)"

definition uploads_fail :: "browser \<Rightarrow> MessageInput_state \<Rightarrow> bool" where
  "uploads_fail env local =
     list_ex (\<lambda>k. isl (uploadFile_result env k)) [0..<length (files_local local)]"



text \<open>
  Reading a trace. \<open>no_mutation_before_return\<close> holds when no store action comes before
  the first return of an API call. \<open>follows_returns\<close> checks every store action against
  what has returned so far: \<open>updateMessage\<close> and \<open>addMessage\<close> need a resolved
  \<open>sendMessage\<close>, \<open>setMessages\<close> a resolved \<open>getChatMessages\<close>,
  \<open>removeMessage\<close> a rejected call, \<open>setSending\<close> any returned call.
\<close>

fun no_mutation_before_return :: "event list \<Rightarrow> bool" where
  "no_mutation_before_return [] = True"
| "no_mutation_before_return (Mutation a # es) = False"
| "no_mutation_before_return (Resolved # es) = True"
| "no_mutation_before_return (Rejected err # es) = True"
| "no_mutation_before_return (Request rq # es) = no_mutation_before_return es"
| "no_mutation_before_return (Alert err # es) = no_mutation_before_return es"
| "no_mutation_before_return (Alert_empty_message # es) = no_mutation_before_return es"

fun is_sendMessage :: "request \<Rightarrow> bool" where
  "is_sendMessage (sendMessage_call c rq) = True"
| "is_sendMessage _ = False"

fun is_getChatMessages :: "request \<Rightarrow> bool" where
  "is_getChatMessages (getChatMessages_call c) = True"
| "is_getChatMessages _ = False"

record progress =
  sent :: bool
  refreshed :: bool
  returned :: bool
  failed :: bool
  pending :: "request option"

definition nothing_yet :: progress where
  "nothing_yet = \<lparr> sent = False, refreshed = False, returned = False, failed = False, pending = None \<rparr>"

fun permitted :: "progress \<Rightarrow> action \<Rightarrow> bool" where
  "permitted p (setSending_action b) = returned p"
| "permitted p (addMessage_action m) = sent p"
| "permitted p (updateMessage_action i u) = sent p"
| "permitted p (removeMessage_action i) = failed p"
| "permitted p (setMessages_action ms) = refreshed p"

fun resolve :: "progress \<Rightarrow> progress" where
  "resolve p =
     p\<lparr> sent := sent p \<or> (case pending p of None \<Rightarrow> False | Some rq \<Rightarrow> is_sendMessage rq),
        refreshed := refreshed p \<or> (case pending p of None \<Rightarrow> False | Some rq \<Rightarrow> is_getChatMessages rq),
        returned := True,
        pending := None \<rparr>"

fun follows_returns :: "progress \<Rightarrow> event list \<Rightarrow> bool" where
  "follows_returns p [] = True"
| "follows_returns p (Request rq # es) = follows_returns (p\<lparr>pending := Some rq\<rparr>) es"
| "follows_returns p (Resolved # es) = follows_returns (resolve p) es"
| "follows_returns p (Rejected err # es) =
     follows_returns (p\<lparr>returned := True, failed := True, pending := None\<rparr>) es"
| "follows_returns p (Alert err # es) = follows_returns p es"
| "follows_returns p (Alert_empty_message # es) = follows_returns p es"
| "follows_returns p (Mutation a # es) = (permitted p a \<and> follows_returns p es)"


text \<open>
  The files whose upload a trace requests, the number of \<open>sendMessage\<close> requests, and
  whether no upload or send request follows the first rejected call.
\<close>

fun uploads_requested :: "event list \<Rightarrow> File list" where
  "uploads_requested [] = []"
| "uploads_requested (Request (uploadFile_call f) # es) = f # uploads_requested es"
| "uploads_requested (e # es) = uploads_requested es"

fun sends_requested :: "event list \<Rightarrow> nat" where
  "sends_requested [] = 0"
| "sends_requested (Request (sendMessage_call c rq) # es) = Suc (sends_requested es)"
| "sends_requested (e # es) = sends_requested es"

fun is_upload_or_send :: "event \<Rightarrow> bool" where
  "is_upload_or_send (Request (uploadFile_call f)) = True"
| "is_upload_or_send (Request (sendMessage_call c rq)) = True"
| "is_upload_or_send e = False"

fun quiet_after_failure :: "event list \<Rightarrow> bool" where
  "quiet_after_failure [] = True"
| "quiet_after_failure (Rejected err # es) = list_all (\<lambda>e. \<not> is_upload_or_send e) es"
| "quiet_after_failure (e # es) = quiet_after_failure es"

text \<open>
  The events after the first rejected call, and the shape of the rollback: the optimistic
  message is removed, the error is reported, and sending is switched off.
\<close>

fun after_rejection :: "event list \<Rightarrow> event list option" where
  "after_rejection [] = None"
| "after_rejection (Rejected err # es) = Some es"
| "after_rejection (e # es) = after_rejection es"

fun is_rollback :: "int \<Rightarrow> event list \<Rightarrow> bool" where
  "is_rollback t [Mutation (removeMessage_action i), Alert err, Mutation (setSending_action b)] =
     (i = t \<and> \<not> b)"
| "is_rollback t es = False"


text \<open>
  The store keeps the selected chat twice: as an entry of \<open>chats\<close> and as
  \<open>currentChat\<close>. The two copies agree when every entry of the list that has the id of
  the current chat is equal to it, field for field.
\<close>

definition coherent :: "ChatState \<Rightarrow> bool" where
  "coherent state =
     (case currentChat state of
        None \<Rightarrow> True
      | Some cur \<Rightarrow> list_all (\<lambda>c. id_chat c \<noteq> id_chat cur \<or> c = cur) (chats state))"


section \<open>Sample values\<close>

text \<open>
  Concrete chats, stores, drafts, environments and audio buffers at which the properties
  below are evaluated.
\<close>

definition chat_one :: Chat where
  "chat_one =
     \<lparr> id_chat = 1, user_id = 3, title = ''Cat diet'', description = None,
       web_search_enabled = False, message_limit = 20, temperature = 1 / 2,
       gigachat_model = ''GigaChat'', image_generation_enabled = False,
       voice_response_enabled = False, max_tokens = Some 2000,
       created_at_chat = ''2025-01-01T10:00:00Z'', updated_at_chat = ''2025-01-01T10:00:00Z'',
       message_count = None, last_message_at = None \<rparr>"

definition chat_seven :: Chat where
  "chat_seven = chat_one\<lparr>id_chat := 7, title := ''Dog walks''\<rparr>"

definition two_chats :: ChatState where
  "two_chats = initial_state\<lparr>chats := [chat_one, chat_seven], currentChat := Some chat_one\<rparr>"

definition detached_current :: ChatState where
  "detached_current = initial_state\<lparr>chats := [chat_one], currentChat := Some chat_seven\<rparr>"

definition retitle :: Chat_partial where
  "retitle = no_changes\<lparr>new_title := Some ''Kitten diet''\<rparr>"

definition renumber :: Chat_partial where
  "renumber = no_changes\<lparr>new_id_chat := Some 7\<rparr>"


definition photo :: File where
  "photo = \<lparr> name = ''cat.png'', lastModified = 1700000000123, type_file = ''image/png'', size_file = 2048 \<rparr>"

definition reply :: ChatMessage where
  "reply = \<lparr> id_msg = 12, chat_id = 1, role = assistant, content = ''Feed twice a day.'',
       message_type = text_type, files = None, metadata_json = None, processing_time_ms = Some 850,
       created_at = ''2025-01-01T10:00:05Z'', updated_at = ''2025-01-01T10:00:05Z'',
       is_deleted = False, isEditing = None, isStreaming = None \<rparr>"

definition offline :: browser where
  "offline = \<lparr> mounted_at = 1700000000000, random = 1234 / 10000,
       clock_created = ''2025-01-01T10:00:00.000Z'', clock_updated = ''2025-01-01T10:00:00.000Z'',
       uploadFile_result = (\<lambda>k. Inr \<lparr> file_id_uploaded = ''f1'', url_uploaded = ''/files/f1'' \<rparr>),
       sendMessage_result = Inl (ApiError ''Network Error''),
       getChatMessages_result = Inr [] \<rparr>"

definition draft :: MessageInput_state where
  "draft = \<lparr> content_local = '' How often to feed a cat? '', files_local = [(photo, ''blob:1'')] \<rparr>"


definition voice :: File where
  "voice = \<lparr> name = ''voice-1700000000456.wav'', lastModified = 1700000000456,
       type_file = ''audio/wav'', size_file = 88244 \<rparr>"

definition two_files :: MessageInput_state where
  "two_files = \<lparr> content_local = '''', files_local = [(photo, ''blob:1''), (voice, ''blob:2'')] \<rparr>"

definition flaky :: browser where
  "flaky = offline\<lparr>uploadFile_result :=
       (\<lambda>k. if k = 0 then Inr \<lparr> file_id_uploaded = ''f1'', url_uploaded = ''/files/f1'' \<rparr>
            else Inl (ApiError ''Request failed with status code 413''))\<rparr>"


definition with_reply :: ChatState where
  "with_reply = initial_state\<lparr>messages := [reply]\<rparr>"



definition loading :: ChatState where
  "loading = initial_state\<lparr>isLoadingMessages := True\<rparr>"


definition question :: ChatMessage where
  "question = \<lparr> id_msg = 11, chat_id = 1, role = user, content = ''How often to feed a cat?'',
       message_type = text_type, files = None, metadata_json = None, processing_time_ms = None,
       created_at = ''2025-01-01T10:00:00Z'', updated_at = ''2025-01-01T10:00:00Z'',
       is_deleted = False, isEditing = None, isStreaming = None \<rparr>"


definition history :: ChatState where
  "history = initial_state\<lparr>messages := [question, reply]\<rparr>"

definition editing :: MessageItem_state where
  "editing = \<lparr> isEditing_local = True, editedContent = '' How often to feed a kitten? '',
       editedFiles = [], isUpdating = False \<rparr>"



text \<open>
  A backend that answers, one whose refresh times out, one that rejects the edit, and a
  composer holding only spaces.
\<close>

definition online :: browser where
  "online = offline\<lparr>sendMessage_result := Inr reply,
       getChatMessages_result := Inr [question, reply]\<rparr>"

definition stale :: browser where
  "stale = offline\<lparr>sendMessage_result := Inr reply,
       getChatMessages_result := Inl (ApiError ''timeout of 10000ms exceeded'')\<rparr>"

definition backend_down :: editor_env where
  "backend_down = \<lparr> updateMessage_result = Inl (ApiError ''Network Error''),
       deleteFile_result = (\<lambda>k. Inr ()) \<rparr>"

definition blank :: MessageInput_state where
  "blank = \<lparr> content_local = ''   '', files_local = [] \<rparr>"






section \<open>Properties of the chat store\<close>

subsection \<open>removeChat\<close>

text \<open>
  Claim C9. For every store state, \<open>removeChat chatId\<close> removes every chat with that id
  from the chats list and leaves all other chats in place and in order (the new list is
  the old one filtered by a different id, so no entry with the id remains); if the current
  chat's id equals the id, \<open>currentChat\<close> becomes null and the message list becomes
  empty, and otherwise both are unchanged. The loading flags are not touched.
\<close>

theorem removeChat_spec:
  "chats (removeChat chatId s) = filter (\<lambda>c. id_chat c \<noteq> chatId) (chats s)
   \<and> (\<forall>c \<in> set (chats (removeChat chatId s)). id_chat c \<noteq> chatId)
   \<and> (if current_is chatId s
        then currentChat (removeChat chatId s) = None \<and> messages (removeChat chatId s) = []
        else currentChat (removeChat chatId s) = currentChat s
           \<and> messages (removeChat chatId s) = messages s)
   \<and> isLoadingChats (removeChat chatId s) = isLoadingChats s
   \<and> isLoadingMessages (removeChat chatId s) = isLoadingMessages s
   \<and> isSending (removeChat chatId s) = isSending s"
  by (simp add: removeChat_def)

theorem removeChat_spec_witness:
  "chats (removeChat 1 two_chats) = [chat_seven]
   \<and> currentChat (removeChat 1 two_chats) = None
   \<and> messages (removeChat 1 two_chats) = []"
  using removeChat_spec [of 1 two_chats]
  by (simp add: two_chats_def initial_state_def chat_one_def chat_seven_def current_is_def)

subsection \<open>updateChat\<close>

lemma spread_chat_keeps_id:
  "new_id_chat u = None \<or> new_id_chat u = Some k \<Longrightarrow> id_chat c = k \<Longrightarrow>
   id_chat (spread_chat c u) = k"
  by (auto simp: spread_chat_def overridden_def)

text \<open>
  Claim C10, as the code has it. \<open>updateChat chatId u\<close> preserves the length and order of
  the chats list, merges \<open>u\<close> into the chats whose id is \<open>chatId\<close> and into no other,
  and applies the same merge to \<open>currentChat\<close> exactly when its id is \<open>chatId\<close>. When
  \<open>u\<close> does not change the id (it has no \<open>id\<close>, or has \<open>chatId\<close> itself), a coherent
  store stays coherent.
\<close>

theorem updateChat_spec:
  "length (chats (updateChat chatId u s)) = length (chats s)
   \<and> (\<forall>i < length (chats s).
         chats (updateChat chatId u s) ! i =
           (if id_chat (chats s ! i) = chatId then spread_chat (chats s ! i) u else chats s ! i))
   \<and> currentChat (updateChat chatId u s) =
        (case currentChat s of
           None \<Rightarrow> None
         | Some c \<Rightarrow> if id_chat c = chatId then Some (spread_chat c u) else Some c)
   \<and> ((new_id_chat u = None \<or> new_id_chat u = Some chatId) \<longrightarrow> coherent s \<longrightarrow>
        coherent (updateChat chatId u s))"
proof -
  have "coherent (updateChat chatId u s)"
    if u: "new_id_chat u = None \<or> new_id_chat u = Some chatId" and c: "coherent s"
  proof (cases "currentChat s")
    case None
    then show ?thesis by (simp add: coherent_def updateChat_def current_is_def)
  next
    case (Some cur)
    have keep: "id_chat (spread_chat x u) = chatId" if "id_chat x = chatId" for x
      using spread_chat_keeps_id [OF u that] .
    show ?thesis
    proof (cases "id_chat cur = chatId")
      case True
      with c Some keep show ?thesis
        by (auto simp: coherent_def updateChat_def current_is_def list_all_iff)
    next
      case False
      with c Some keep show ?thesis
        by (auto simp: coherent_def updateChat_def current_is_def list_all_iff)
    qed
  qed
  then show ?thesis
    by (auto simp: updateChat_def current_is_def split: option.splits)
qed

theorem updateChat_spec_witness:
  "coherent two_chats
   \<and> coherent (updateChat 1 retitle two_chats)
   \<and> chats (updateChat 1 retitle two_chats) = [chat_one\<lparr>title := ''Kitten diet''\<rparr>, chat_seven]
   \<and> currentChat (updateChat 1 retitle two_chats) = Some (chat_one\<lparr>title := ''Kitten diet''\<rparr>)"
proof -
  have start: "coherent two_chats"
    by (simp add: coherent_def two_chats_def initial_state_def chat_one_def chat_seven_def)
  have same_id: "new_id_chat retitle = None \<or> new_id_chat retitle = Some 1"
    by (simp add: retitle_def no_changes_def)
  from updateChat_spec [of 1 retitle two_chats] same_id start
  have "coherent (updateChat 1 retitle two_chats)"
    by blast
  moreover have
    "chats (updateChat 1 retitle two_chats) = [chat_one\<lparr>title := ''Kitten diet''\<rparr>, chat_seven]"
    "currentChat (updateChat 1 retitle two_chats) = Some (chat_one\<lparr>title := ''Kitten diet''\<rparr>)"
    by (simp_all add: updateChat_def two_chats_def initial_state_def chat_one_def
        chat_seven_def retitle_def no_changes_def spread_chat_def overridden_def current_is_def)
  ultimately show ?thesis
    using start by simp
qed

text \<open>
  The claim as stated, for every update: an update that carries another id breaks the
  agreement. The list holds chat 1 only and the current chat is chat 7; after
  \<open>updateChat 1 {id: 7}\<close> the list entry has id 7 and is not the current chat.
\<close>

theorem updateChat_coherent_counterexample:
  "coherent detached_current \<and> \<not> coherent (updateChat 1 renumber detached_current)"
  by (simp add: coherent_def detached_current_def initial_state_def chat_one_def
      chat_seven_def renumber_def no_changes_def updateChat_def spread_chat_def
      overridden_def current_is_def)


section \<open>Properties of the message history\<close>

lemma shown_container:
  "shown (messages_container (map MessageItem (filter (\<lambda>m. \<not> is_deleted m) msgs))) =
     filter (\<lambda>m. \<not> is_deleted m) msgs"
  by (induction msgs) (simp_all add: MessageItem_def)

lemma shown_MessageList:
  "shown (MessageList store msgs) =
     (if isLoadingMessages store then [] else filter (\<lambda>m. \<not> is_deleted m) msgs)"
proof (cases "filter (\<lambda>m. \<not> is_deleted m) msgs = []")
  case True
  then show ?thesis by (simp add: MessageList_def visibleMessages_def)
next
  case False
  then show ?thesis
    using shown_container [of msgs] by (simp add: MessageList_def visibleMessages_def)
qed

text \<open>
  Claim C6, as the code has it. \<open>visibleMessages\<close> is the message list filtered by
  \<open>is_deleted\<close> being false, in the stored order, and a message with \<open>is_deleted\<close>
  true is never shown. While \<open>isLoadingMessages\<close> is false the view shows exactly the
  visible messages, and it is the empty placeholder exactly when there is none. While
  \<open>isLoadingMessages\<close> is true the view is the loading placeholder and shows no message.
\<close>
theorem MessageList_shows_visible:
  "visibleMessages msgs = filter (\<lambda>m. \<not> is_deleted m) msgs
   \<and> (\<forall>m \<in> set (shown (MessageList store msgs)). \<not> is_deleted m)
   \<and> (\<not> isLoadingMessages store \<longrightarrow>
        shown (MessageList store msgs) = filter (\<lambda>m. \<not> is_deleted m) msgs
        \<and> (MessageList store msgs = empty_state \<longleftrightarrow> filter (\<lambda>m. \<not> is_deleted m) msgs = []))
   \<and> (isLoadingMessages store \<longrightarrow>
        MessageList store msgs = loading_state \<and> shown (MessageList store msgs) = [])"
proof -
  have "MessageList store msgs = empty_state \<longleftrightarrow> filter (\<lambda>m. \<not> is_deleted m) msgs = []"
    if "\<not> isLoadingMessages store"
    using that by (simp add: MessageList_def visibleMessages_def)
  moreover have "MessageList store msgs = loading_state" if "isLoadingMessages store"
    using that by (simp add: MessageList_def)
  ultimately show ?thesis
    by (simp add: shown_MessageList visibleMessages_def)
qed

theorem MessageList_shows_visible_witness:
  "shown (MessageList initial_state [reply, reply\<lparr>id_msg := 13, is_deleted := True\<rparr>]) = [reply]
   \<and> MessageList initial_state [reply\<lparr>is_deleted := True\<rparr>] = empty_state
   \<and> MessageList loading [reply] = loading_state"
  using MessageList_shows_visible [of "[reply, reply\<lparr>id_msg := 13, is_deleted := True\<rparr>]" initial_state]
    MessageList_shows_visible [of "[reply\<lparr>is_deleted := True\<rparr>]" initial_state]
    MessageList_shows_visible [of "[reply]" loading]
  by (simp add: initial_state_def loading_def reply_def)

text \<open>
  The claim without the loading flag: while the history loads, an empty list gives the
  loading placeholder and not the empty one, and a list with one visible message shows
  nothing.
\<close>
theorem MessageList_loading_counterexample:
  "isLoadingMessages loading
   \<and> filter (\<lambda>m. \<not> is_deleted m) [] = ([] :: ChatMessage list)
   \<and> MessageList loading [] \<noteq> empty_state
   \<and> filter (\<lambda>m. \<not> is_deleted m) [reply] = [reply]
   \<and> shown (MessageList loading [reply]) = []"
  by (simp add: loading_def initial_state_def MessageList_def reply_def)


section \<open>Properties of the temperature controls\<close>

lemma ChatSettings_temperature_in_range:
  "0 \<le> stored_temperature (ChatSettings_temperature_onChange v)
   \<and> stored_temperature (ChatSettings_temperature_onChange v) \<le> 1"
  by (simp add: ChatSettings_temperature_onChange_def)

lemma ComposerControls_temperature_in_range:
  "0 \<le> stored_temperature (ComposerControls_temperature_onChange v)
   \<and> stored_temperature (ComposerControls_temperature_onChange v) \<le> 1
   \<and> sent_temperature (ComposerControls_temperature_onChange v)
       = Some (stored_temperature (ComposerControls_temperature_onChange v))"
  by (simp add: ComposerControls_temperature_onChange_def sent_temperature_def Let_def no_changes_def)

text \<open>
  Claim C5: every temperature that the settings UI stores and sends lies between 0 and 1.
  The settings dialog and one version of the composer controls clamp the value (the two
  lemmas above). The other version of the composer controls does not: with its slider at
  1.5 it stores 1.5 locally and sends 1.5 to the server.
\<close>
theorem ComposerControls_saving_temperature_above_one:
  "stored_temperature (ComposerControls_saving_temperature_onChange (3 / 2)) = 3 / 2
   \<and> sent_temperature (ComposerControls_saving_temperature_onChange (3 / 2)) = Some (3 / 2)
   \<and> \<not> stored_temperature (ComposerControls_saving_temperature_onChange (3 / 2)) \<le> 1"
  by (simp add: ComposerControls_saving_temperature_onChange_def sent_temperature_def Let_def
      no_changes_def)


section \<open>Properties of the composer\<close>

subsection \<open>The upload loop and the shape of a run\<close>

lemma fst_mutate: "fst (mutate a r) = dispatch a (fst r)"
  by (simp add: mutate_def)

lemma fst_emit: "fst (emit e r) = fst r"
  by (simp add: emit_def)

lemma upload_loop_run:
  "snd (upload_loop api k fs ids ms r) = (fst r, snd r @ upload_events api k fs)"
  by (induction api k fs ids ms r rule: upload_loop.induct)
     (auto simp: emit_def split: sum.splits)

lemma upload_loop_isl:
  "isl (fst (upload_loop api k fs ids ms r)) \<longleftrightarrow> (\<exists>j < length fs. isl (api (k + j)))"
proof (induction api k fs ids ms r rule: upload_loop.induct)
  case (1 api k fileIds uploadedMetas r)
  then show ?case by simp
next
  case (2 api k f p rest fileIds uploadedMetas r)
  show ?case
  proof (cases "api k")
    case (Inl err)
    then have "isl (api (k + 0))" by simp
    then have "\<exists>j < length ((f, p) # rest). isl (api (k + j))"
      by (intro exI [of _ 0]) simp
    with Inl show ?thesis by simp
  next
    case (Inr uploaded)
    have "(\<exists>j < Suc (length rest). isl (api (k + j))) \<longleftrightarrow> (\<exists>j < length rest. isl (api (Suc k + j)))"
    proof
      assume "\<exists>j < Suc (length rest). isl (api (k + j))"
      then obtain j where j: "j < Suc (length rest)" "isl (api (k + j))" by blast
      with Inr have "j \<noteq> 0" by (cases j) auto
      then obtain j' where "j = Suc j'" by (cases j) auto
      with j show "\<exists>j < length rest. isl (api (Suc k + j))" by auto
    next
      assume "\<exists>j < length rest. isl (api (Suc k + j))"
      then obtain j where "j < length rest" "isl (api (Suc k + j))" by blast
      then show "\<exists>j < Suc (length rest). isl (api (k + j))"
        by (intro exI [of _ "Suc j"]) simp
    qed
    with Inr 2 show ?thesis by simp
  qed
qed

lemma uploads_fail_iff:
  "uploads_fail env local \<longleftrightarrow> (\<exists>j < length (files_local local). isl (uploadFile_result env j))"
  by (auto simp: uploads_fail_def list_ex_iff)

lemma try_submit_trace:
  fixes env :: browser and chatId :: int and local :: MessageInput_state and r :: run
  defines "U \<equiv> upload_events (uploadFile_result env) 0 (files_local local)"
  shows "(uploads_fail env local \<and> (\<exists>err. try_submit env chatId local r = (Inl err, (fst r, snd r @ U))))
       \<or> (\<not> uploads_fail env local \<and>
            (\<exists>err rq. sendMessage_result env = Inl err \<and>
               try_submit env chatId local r =
                 (Inl err, (fst r, snd r @ U @ [Request (sendMessage_call chatId rq), Rejected err]))))
       \<or> (\<not> uploads_fail env local \<and>
            (\<exists>err rq u a. sendMessage_result env = Inr a \<and> getChatMessages_result env = Inl err \<and>
               try_submit env chatId local r =
                 (Inl err,
                  (addMessage a (updateMessage (tempId env) u (fst r)),
                   snd r @ U @
                     [Request (sendMessage_call chatId rq), Resolved,
                      Mutation (updateMessage_action (tempId env) u), Mutation (addMessage_action a),
                      Request (getChatMessages_call chatId), Rejected err]))))
       \<or> (\<not> uploads_fail env local \<and>
            (\<exists>rq u a ms. sendMessage_result env = Inr a \<and> getChatMessages_result env = Inr ms \<and>
               try_submit env chatId local r =
                 (Inr \<lparr> content_local = [], files_local = [] \<rparr>,
                  (setMessages ms (addMessage a (updateMessage (tempId env) u (fst r))),
                   snd r @ U @
                     [Request (sendMessage_call chatId rq), Resolved,
                      Mutation (updateMessage_action (tempId env) u), Mutation (addMessage_action a),
                      Request (getChatMessages_call chatId), Resolved,
                      Mutation (setMessages_action ms)]))))"
proof -
  obtain res r2 where up: "upload_loop (uploadFile_result env) 0 (files_local local) [] [] r = (res, r2)"
    by (cases "upload_loop (uploadFile_result env) 0 (files_local local) [] [] r")
  from upload_loop_run [of "uploadFile_result env" 0 "files_local local" "[]" "[]" r] up
  have r2: "r2 = (fst r, snd r @ U)"
    by (simp add: U_def)
  from upload_loop_isl [of "uploadFile_result env" 0 "files_local local" "[]" "[]" r] up
  have fails: "isl res \<longleftrightarrow> uploads_fail env local"
    by (simp add: uploads_fail_iff)
  show ?thesis
  proof (cases res)
    case (Inl err)
    with fails have "uploads_fail env local" by simp
    moreover from up r2 Inl
    have "try_submit env chatId local r = (Inl err, (fst r, snd r @ U))"
      by (simp add: try_submit_def)
    ultimately show ?thesis by blast
  next
    case (Inr pair)
    with fails have nf: "\<not> uploads_fail env local" by simp
    obtain ids metas where pair: "pair = (ids, metas)" by (cases pair)
    let ?rq = "\<lparr> content_sent = trim (content_local local),
                  files_sent = (if ids = [] then None else Some ids) \<rparr>"
    let ?u = "no_updates\<lparr>upd_files := Some (if metas = [] then None else Some metas)\<rparr>"
    show ?thesis
    proof (cases "sendMessage_result env")
      case (Inl err)
      with up r2 Inr pair
      have "try_submit env chatId local r =
                 (Inl err, (fst r, snd r @ U @ [Request (sendMessage_call chatId ?rq), Rejected err]))"
        by (simp add: try_submit_def Let_def emit_def)
      with nf Inl show ?thesis by blast
    next
      case sent: (Inr a)
      show ?thesis
      proof (cases "getChatMessages_result env")
        case (Inl err)
        with up r2 Inr pair sent
        have "try_submit env chatId local r =
                 (Inl err,
                  (addMessage a (updateMessage (tempId env) ?u (fst r)),
                   snd r @ U @
                     [Request (sendMessage_call chatId ?rq), Resolved,
                      Mutation (updateMessage_action (tempId env) ?u), Mutation (addMessage_action a),
                      Request (getChatMessages_call chatId), Rejected err]))"
          by (simp add: try_submit_def Let_def mutate_def emit_def)
        with nf Inl sent show ?thesis by blast
      next
        case got: (Inr ms)
        with up r2 Inr pair sent
        have "try_submit env chatId local r =
                 (Inr \<lparr> content_local = [], files_local = [] \<rparr>,
                  (setMessages ms (addMessage a (updateMessage (tempId env) ?u (fst r))),
                   snd r @ U @
                     [Request (sendMessage_call chatId ?rq), Resolved,
                      Mutation (updateMessage_action (tempId env) ?u), Mutation (addMessage_action a),
                      Request (getChatMessages_call chatId), Resolved,
                      Mutation (setMessages_action ms)]))"
          by (simp add: try_submit_def Let_def mutate_def emit_def)
        with nf got sent show ?thesis by blast
      qed
    qed
  qed
qed

lemma handleSubmit_unfold:
  assumes "\<not> (trim (content_local local) = [] \<and> files_local local = [])"
  shows "handleSubmit env chatId local store =
     (case try_submit env chatId local
             (addMessage (optimisticUser env chatId local) (setSending True store),
              [Mutation (setSending_action True),
               Mutation (addMessage_action (optimisticUser env chatId local))]) of
        (Inr local', r2) \<Rightarrow> (local', mutate (setSending_action False) r2)
      | (Inl err, r2) \<Rightarrow>
          (local,
           mutate (setSending_action False)
             (emit (Alert err) (mutate (removeMessage_action (tempId env)) r2))))"
  using assms by (auto simp add: handleSubmit_def Let_def mutate_def)

lemma handleSubmit_trace:
  fixes env :: browser and chatId :: int and local :: MessageInput_state and store :: ChatState
  assumes guard: "\<not> (trim (content_local local) = [] \<and> files_local local = [])"
  defines "U \<equiv> upload_events (uploadFile_result env) 0 (files_local local)"
    and "M1 \<equiv> Mutation (setSending_action True)"
    and "M2 \<equiv> Mutation (addMessage_action (optimisticUser env chatId local))"
    and "undo \<equiv> Mutation (removeMessage_action (tempId env))"
    and "fin \<equiv> Mutation (setSending_action False)"
    and "tr \<equiv> snd (snd (handleSubmit env chatId local store))"
  shows "(uploads_fail env local \<and> (\<exists>err. tr = M1 # M2 # U @ [undo, Alert err, fin]))
       \<or> (\<not> uploads_fail env local \<and>
            (\<exists>err rq. sendMessage_result env = Inl err \<and>
               tr = M1 # M2 # U @ [Request (sendMessage_call chatId rq), Rejected err, undo, Alert err, fin]))
       \<or> (\<not> uploads_fail env local \<and>
            (\<exists>err rq u a. sendMessage_result env = Inr a \<and> getChatMessages_result env = Inl err \<and>
               tr = M1 # M2 # U @
                 [Request (sendMessage_call chatId rq), Resolved,
                  Mutation (updateMessage_action (tempId env) u), Mutation (addMessage_action a),
                  Request (getChatMessages_call chatId), Rejected err, undo, Alert err, fin]))
       \<or> (\<not> uploads_fail env local \<and>
            (\<exists>rq u a ms. sendMessage_result env = Inr a \<and> getChatMessages_result env = Inr ms \<and>
               tr = M1 # M2 # U @
                 [Request (sendMessage_call chatId rq), Resolved,
                  Mutation (updateMessage_action (tempId env) u), Mutation (addMessage_action a),
                  Request (getChatMessages_call chatId), Resolved,
                  Mutation (setMessages_action ms), fin]))"
proof -
  let ?r1 = "(addMessage (optimisticUser env chatId local) (setSending True store), [M1, M2])"
  note unfold = handleSubmit_unfold [OF guard, of env chatId store, folded M1_def M2_def]
  from try_submit_trace [of env local chatId ?r1, folded U_def]
  consider
      (upload) err where "uploads_fail env local"
        "try_submit env chatId local ?r1 = (Inl err, (fst ?r1, snd ?r1 @ U))"
    | (send) err rq where "\<not> uploads_fail env local" "sendMessage_result env = Inl err"
        "try_submit env chatId local ?r1 =
           (Inl err, (fst ?r1, snd ?r1 @ U @ [Request (sendMessage_call chatId rq), Rejected err]))"
    | (refresh) err rq u a where "\<not> uploads_fail env local" "sendMessage_result env = Inr a"
        "getChatMessages_result env = Inl err"
        "try_submit env chatId local ?r1 =
           (Inl err,
            (addMessage a (updateMessage (tempId env) u (fst ?r1)),
             snd ?r1 @ U @
               [Request (sendMessage_call chatId rq), Resolved,
                Mutation (updateMessage_action (tempId env) u), Mutation (addMessage_action a),
                Request (getChatMessages_call chatId), Rejected err]))"
    | (success) rq u a ms where "\<not> uploads_fail env local" "sendMessage_result env = Inr a"
        "getChatMessages_result env = Inr ms"
        "try_submit env chatId local ?r1 =
           (Inr \<lparr> content_local = [], files_local = [] \<rparr>,
            (setMessages ms (addMessage a (updateMessage (tempId env) u (fst ?r1))),
             snd ?r1 @ U @
               [Request (sendMessage_call chatId rq), Resolved,
                Mutation (updateMessage_action (tempId env) u), Mutation (addMessage_action a),
                Request (getChatMessages_call chatId), Resolved,
                Mutation (setMessages_action ms)]))"
    by blast
  then show ?thesis
  proof cases
    case upload
    from unfold upload(2) have "tr = M1 # M2 # U @ [undo, Alert err, fin]"
      by (simp add: tr_def mutate_def emit_def undo_def fin_def)
    with upload(1) show ?thesis by blast
  next
    case send
    from unfold send(3)
    have "tr = M1 # M2 # U @ [Request (sendMessage_call chatId rq), Rejected err, undo, Alert err, fin]"
      by (simp add: tr_def mutate_def emit_def undo_def fin_def)
    with send(1,2) show ?thesis by blast
  next
    case refresh
    from unfold refresh(4)
    have "tr = M1 # M2 # U @
                 [Request (sendMessage_call chatId rq), Resolved,
                  Mutation (updateMessage_action (tempId env) u), Mutation (addMessage_action a),
                  Request (getChatMessages_call chatId), Rejected err, undo, Alert err, fin]"
      by (simp add: tr_def mutate_def emit_def undo_def fin_def)
    with refresh(1,2,3) show ?thesis by blast
  next
    case success
    from unfold success(4)
    have "tr = M1 # M2 # U @
                 [Request (sendMessage_call chatId rq), Resolved,
                  Mutation (updateMessage_action (tempId env) u), Mutation (addMessage_action a),
                  Request (getChatMessages_call chatId), Resolved,
                  Mutation (setMessages_action ms), fin]"
      by (simp add: tr_def mutate_def emit_def undo_def fin_def)
    with success(1,2,3) show ?thesis by blast
  qed
qed

subsection \<open>The sample submissions\<close>

lemma draft_trimmed: "trim (content_local draft) = ''How often to feed a cat?''"
  by (simp add: draft_def trim_def is_space_def)


lemma offline_uploads:
  "upload_loop (uploadFile_result offline) 0 (files_local draft) [] [] r =
     (Inr ([''f1''], [\<lparr> file_id = ''f1'', filename = ''cat.png'', file_type = image, file_size = 2048,
         mime_type = ''image/png'', url = Some ''/files/f1'' \<rparr>]),
      (fst r, snd r @ [Request (uploadFile_call photo), Resolved]))"
  by (simp add: offline_def draft_def emit_def photo_def inferFileType_def)

lemma offline_send: "sendMessage_result offline = Inl (ApiError ''Network Error'')"
  by (simp add: offline_def)

lemma offline_trace:
  "snd (snd (handleSubmit offline 1 draft store)) =
     [Mutation (setSending_action True),
      Mutation (addMessage_action (optimisticUser offline 1 draft)),
      Request (uploadFile_call photo), Resolved,
      Request (sendMessage_call 1
        \<lparr> content_sent = ''How often to feed a cat?'', files_sent = Some [''f1''] \<rparr>),
      Rejected (ApiError ''Network Error''),
      Mutation (removeMessage_action (tempId offline)),
      Alert (ApiError ''Network Error''),
      Mutation (setSending_action False)]"
  by (simp add: handleSubmit_def Let_def try_submit_def offline_uploads offline_send
      mutate_def emit_def draft_trimmed)

lemma flaky_trace:
  "snd (snd (handleSubmit flaky 1 two_files store)) =
     [Mutation (setSending_action True),
      Mutation (addMessage_action (optimisticUser flaky 1 two_files)),
      Request (uploadFile_call photo), Resolved,
      Request (uploadFile_call voice), Rejected (ApiError ''Request failed with status code 413''),
      Mutation (removeMessage_action (tempId flaky)),
      Alert (ApiError ''Request failed with status code 413''),
      Mutation (setSending_action False)]"
  by (simp add: handleSubmit_def Let_def try_submit_def two_files_def flaky_def offline_def
      mutate_def emit_def)

subsection \<open>Rollback of a failed submission\<close>




subsection \<open>Temporary ids\<close>




subsection \<open>Store actions and API calls in time\<close>

lemma follows_returns_uploads:
  "follows_returns p (upload_events api k fs @ T) =
     follows_returns
       (if fs = [] then p
        else p\<lparr> returned := True,
               failed := failed p \<or> (\<exists>j < length fs. isl (api (k + j))),
               pending := None \<rparr>) T"
proof (induction api k fs arbitrary: p rule: upload_events.induct)
  case (1 api k)
  then show ?case by simp
next
  case (2 api k f u rest)
  show ?case
  proof (cases "api k")
    case (Inl err)
    then have "isl (api (k + 0))" by simp
    then have "\<exists>j < length ((f, u) # rest). isl (api (k + j))"
      by (intro exI [of _ 0]) simp
    with Inl show ?thesis by simp
  next
    case (Inr uploaded)
    have shift: "(\<exists>j < Suc (length rest). isl (api (k + j))) \<longleftrightarrow> (\<exists>j < length rest. isl (api (Suc k + j)))"
    proof
      assume "\<exists>j < Suc (length rest). isl (api (k + j))"
      then obtain j where j: "j < Suc (length rest)" "isl (api (k + j))" by blast
      with Inr have "j \<noteq> 0" by (cases j) auto
      then obtain j' where "j = Suc j'" by (cases j) auto
      with j show "\<exists>j < length rest. isl (api (Suc k + j))" by auto
    next
      assume "\<exists>j < length rest. isl (api (Suc k + j))"
      then obtain j where "j < length rest" "isl (api (Suc k + j))" by blast
      then show "\<exists>j < Suc (length rest). isl (api (k + j))"
        by (intro exI [of _ "Suc j"]) simp
    qed
    show ?thesis
    proof (cases "rest = []")
      case True
      with Inr show ?thesis by simp
    next
      case False
      with Inr 2 [OF Inr] shift show ?thesis by simp
    qed
  qed
qed

text \<open>
  Claim C2, as the code has it. A submission that passes the guard mutates the store twice
  before any API call: \<open>setSending(true)\<close> and \<open>addMessage\<close> of the optimistic
  message. Every later store action follows the return of an API call, and the ones that
  mirror a response follow the call that gave it: \<open>updateMessage\<close> and \<open>addMessage\<close>
  of the assistant's message come after \<open>sendMessage\<close> resolved, \<open>setMessages\<close> after
  \<open>getChatMessages\<close> resolved, the rollback \<open>removeMessage\<close> after a call was
  rejected.
\<close>
theorem submission_order:
  assumes guard: "\<not> (trim (content_local local) = [] \<and> files_local local = [])"
  shows "take 2 (snd (snd (handleSubmit env chatId local store))) =
           [Mutation (setSending_action True),
            Mutation (addMessage_action (optimisticUser env chatId local))]
       \<and> follows_returns nothing_yet (drop 2 (snd (snd (handleSubmit env chatId local store))))"
  using handleSubmit_trace [OF guard, of env chatId store]
  by (auto simp: follows_returns_uploads nothing_yet_def uploads_fail_iff)

theorem submission_order_witness:
  "take 2 (snd (snd (handleSubmit offline 1 draft initial_state))) =
     [Mutation (setSending_action True),
      Mutation (addMessage_action (optimisticUser offline 1 draft))]
   \<and> follows_returns nothing_yet (drop 2 (snd (snd (handleSubmit offline 1 draft initial_state))))
   \<and> drop 2 (snd (snd (handleSubmit offline 1 draft initial_state))) =
       [Request (uploadFile_call photo), Resolved,
        Request (sendMessage_call 1
          \<lparr> content_sent = ''How often to feed a cat?'', files_sent = Some [''f1''] \<rparr>),
        Rejected (ApiError ''Network Error''),
        Mutation (removeMessage_action (tempId offline)),
        Alert (ApiError ''Network Error''),
        Mutation (setSending_action False)]"
proof -
  have guard: "\<not> (trim (content_local draft) = [] \<and> files_local draft = [])"
    by (simp add: draft_trimmed)
  from submission_order [OF guard, of offline 1 initial_state] show ?thesis
    by (simp add: offline_trace)
qed

text \<open>
  The claim as stated, that no store mutation precedes the return of an API call: the
  optimistic message is added before the first request is issued.
\<close>
theorem mutation_before_call_counterexample:
  "snd (snd (handleSubmit offline 1 draft initial_state)) ! 1 =
     Mutation (addMessage_action (optimisticUser offline 1 draft))
   \<and> snd (snd (handleSubmit offline 1 draft initial_state)) ! 2 = Request (uploadFile_call photo)
   \<and> \<not> no_mutation_before_return (snd (snd (handleSubmit offline 1 draft initial_state)))"
  by (simp add: offline_trace)

subsection \<open>No retry\<close>

lemma uploads_requested_uploads:
  "uploads_requested (upload_events api k fs @ T) =
     take (length (uploads_requested (upload_events api k fs))) (map fst fs) @ uploads_requested T
   \<and> length (uploads_requested (upload_events api k fs)) \<le> length fs"
  by (induction api k fs rule: upload_events.induct) (auto split: sum.splits)

lemma sends_requested_uploads:
  "sends_requested (upload_events api k fs @ T) = sends_requested T"
  by (induction api k fs rule: upload_events.induct) (auto split: sum.splits)

lemma quiet_after_failure_uploads:
  "quiet_after_failure (upload_events api k fs @ T) =
     (if \<exists>j < length fs. isl (api (k + j)) then list_all (\<lambda>e. \<not> is_upload_or_send e) T
      else quiet_after_failure T)"
proof (induction api k fs rule: upload_events.induct)
  case (1 api k)
  then show ?case by simp
next
  case (2 api k f u rest)
  show ?case
  proof (cases "api k")
    case (Inl err)
    then have "isl (api (k + 0))" by simp
    then have "\<exists>j < length ((f, u) # rest). isl (api (k + j))"
      by (intro exI [of _ 0]) simp
    with Inl show ?thesis by simp
  next
    case (Inr uploaded)
    have shift: "(\<exists>j < Suc (length rest). isl (api (k + j))) \<longleftrightarrow> (\<exists>j < length rest. isl (api (Suc k + j)))"
    proof
      assume "\<exists>j < Suc (length rest). isl (api (k + j))"
      then obtain j where j: "j < Suc (length rest)" "isl (api (k + j))" by blast
      with Inr have "j \<noteq> 0" by (cases j) auto
      then obtain j' where "j = Suc j'" by (cases j) auto
      with j show "\<exists>j < length rest. isl (api (Suc k + j))" by auto
    next
      assume "\<exists>j < length rest. isl (api (Suc k + j))"
      then obtain j where "j < length rest" "isl (api (Suc k + j))" by blast
      then show "\<exists>j < Suc (length rest). isl (api (k + j))"
        by (intro exI [of _ "Suc j"]) simp
    qed
    from Inr 2 [OF Inr] shift show ?thesis by simp
  qed
qed

lemma after_rejection_uploads:
  "after_rejection (upload_events api k fs @ T) =
     (if \<exists>j < length fs. isl (api (k + j)) then Some T else after_rejection T)"
proof (induction api k fs rule: upload_events.induct)
  case (1 api k)
  then show ?case by simp
next
  case (2 api k f u rest)
  show ?case
  proof (cases "api k")
    case (Inl err)
    then have "isl (api (k + 0))" by simp
    then have "\<exists>j < length ((f, u) # rest). isl (api (k + j))"
      by (intro exI [of _ 0]) simp
    with Inl show ?thesis by simp
  next
    case (Inr uploaded)
    have shift: "(\<exists>j < Suc (length rest). isl (api (k + j))) \<longleftrightarrow> (\<exists>j < length rest. isl (api (Suc k + j)))"
    proof
      assume "\<exists>j < Suc (length rest). isl (api (k + j))"
      then obtain j where j: "j < Suc (length rest)" "isl (api (k + j))" by blast
      with Inr have "j \<noteq> 0" by (cases j) auto
      then obtain j' where "j = Suc j'" by (cases j) auto
      with j show "\<exists>j < length rest. isl (api (Suc k + j))" by auto
    next
      assume "\<exists>j < length rest. isl (api (Suc k + j))"
      then obtain j where "j < length rest" "isl (api (Suc k + j))" by blast
      then show "\<exists>j < Suc (length rest). isl (api (k + j))"
        by (intro exI [of _ "Suc j"]) simp
    qed
    from Inr 2 [OF Inr] shift show ?thesis by simp
  qed
qed

text \<open>
  Claim C7. A submission requests the upload of the attached files in their order, each at
  most once (the uploads requested are a prefix of the attached files), it requests
  \<open>sendMessage\<close> at most once, and after the first rejected call it issues no upload and
  no send request: what follows is the rollback of the optimistic message, the alert and
  \<open>setSending(false)\<close>, and nothing else.
\<close>
theorem submission_never_retries:
  "prefix (uploads_requested (snd (snd (handleSubmit env chatId local store))))
     (map fst (files_local local))
   \<and> sends_requested (snd (snd (handleSubmit env chatId local store))) \<le> 1
   \<and> quiet_after_failure (snd (snd (handleSubmit env chatId local store)))
   \<and> (case after_rejection (snd (snd (handleSubmit env chatId local store))) of
         None \<Rightarrow> True
       | Some es \<Rightarrow> is_rollback (tempId env) es)"
proof (cases "trim (content_local local) = [] \<and> files_local local = []")
  case True
  then show ?thesis by (simp add: handleSubmit_def)
next
  case False
  from handleSubmit_trace [OF False, of env chatId store] show ?thesis
    by (auto simp: uploads_requested_uploads sends_requested_uploads
        quiet_after_failure_uploads after_rejection_uploads uploads_fail_iff take_is_prefix)
qed

theorem submission_never_retries_witness:
  "prefix (uploads_requested (snd (snd (handleSubmit flaky 1 two_files initial_state))))
     (map fst (files_local two_files))
   \<and> sends_requested (snd (snd (handleSubmit flaky 1 two_files initial_state))) \<le> 1
   \<and> quiet_after_failure (snd (snd (handleSubmit flaky 1 two_files initial_state)))
   \<and> after_rejection (snd (snd (handleSubmit flaky 1 two_files initial_state))) =
       Some [Mutation (removeMessage_action (tempId flaky)),
             Alert (ApiError ''Request failed with status code 413''),
             Mutation (setSending_action False)]
   \<and> uploads_requested (snd (snd (handleSubmit flaky 1 two_files initial_state))) = [photo, voice]
   \<and> sends_requested (snd (snd (handleSubmit flaky 1 two_files initial_state))) = 0"
  using submission_never_retries [of flaky 1 two_files initial_state]
  by (simp add: flaky_trace)


subsection \<open>A submission the server accepted\<close>

lemma try_submit_accepted:
  assumes up: "\<not> uploads_fail env local"
    and sent: "sendMessage_result env = Inr a"
  shows "\<exists>u. upd_id_msg u = None \<and>
     fst (try_submit env chatId local r) =
       (case getChatMessages_result env of
          Inl err \<Rightarrow> Inl err
        | Inr ms \<Rightarrow> Inr \<lparr> content_local = [], files_local = [] \<rparr>) \<and>
     fst (snd (try_submit env chatId local r)) =
       (case getChatMessages_result env of
          Inl err \<Rightarrow> addMessage a (updateMessage (tempId env) u (fst r))
        | Inr ms \<Rightarrow> setMessages ms (addMessage a (updateMessage (tempId env) u (fst r))))"
proof -
  obtain res r2 where loop: "upload_loop (uploadFile_result env) 0 (files_local local) [] [] r = (res, r2)"
    by (cases "upload_loop (uploadFile_result env) 0 (files_local local) [] [] r")
  from upload_loop_run [of "uploadFile_result env" 0 "files_local local" "[]" "[]" r] loop
  have r2: "fst r2 = fst r"
    by simp
  from upload_loop_isl [of "uploadFile_result env" 0 "files_local local" "[]" "[]" r] loop up
  have "\<not> isl res"
    by (simp add: uploads_fail_iff)
  then obtain ids metas where res: "res = Inr (ids, metas)"
    by (cases res) auto
  let ?u = "no_updates\<lparr>upd_files := Some (if metas = [] then None else Some metas)\<rparr>"
  have u: "upd_id_msg ?u = None"
    by (simp add: no_updates_def)
  from loop res sent r2 have
    "fst (try_submit env chatId local r) =
       (case getChatMessages_result env of
          Inl err \<Rightarrow> Inl err
        | Inr ms \<Rightarrow> Inr \<lparr> content_local = [], files_local = [] \<rparr>)"
    "fst (snd (try_submit env chatId local r)) =
       (case getChatMessages_result env of
          Inl err \<Rightarrow> addMessage a (updateMessage (tempId env) ?u (fst r))
        | Inr ms \<Rightarrow> setMessages ms (addMessage a (updateMessage (tempId env) ?u (fst r))))"
    by (simp_all add: try_submit_def Let_def fst_mutate fst_emit split: sum.splits)
  with u show ?thesis
    by (intro exI [of _ ?u]) simp
qed

lemma removeMessage_own:
  assumes fresh: "t \<notin> id_msg ` set (messages store)"
    and own: "id_msg m = t"
    and other: "id_msg a \<noteq> t"
    and u: "upd_id_msg u = None"
  shows "messages (removeMessage t (addMessage a (updateMessage t u (addMessage m store)))) =
     messages store @ [a]"
proof -
  have keep: "filter (\<lambda>msg. id_msg msg \<noteq> t)
      (map (\<lambda>msg. if id_msg msg = t then spread_msg msg u else msg) xs) = xs"
    if "t \<notin> id_msg ` set xs" for xs
    using that by (induction xs) auto
  have "id_msg (spread_msg m u) = t"
    using own u by (simp add: spread_msg_def overridden_def)
  with keep [OF fresh] own other show ?thesis
    by (simp add: removeMessage_def addMessage_def updateMessage_def)
qed

text \<open>
  Property X1. A submission passes the guard, every upload and \<open>sendMessage\<close> resolve, and
  \<open>getChatMessages\<close> resolves with \<open>ms\<close>: the store's message list is \<open>ms\<close>, the
  server's list, \<open>isSending\<close> is false again, and the composer's text and files are
  cleared.
\<close>
theorem successful_submission_mirrors_server:
  assumes guard: "\<not> (trim (content_local local) = [] \<and> files_local local = [])"
    and up: "\<not> uploads_fail env local"
    and sent: "sendMessage_result env = Inr a"
    and got: "getChatMessages_result env = Inr ms"
  shows "messages (fst (snd (handleSubmit env chatId local store))) = ms
       \<and> isSending (fst (snd (handleSubmit env chatId local store))) = False
       \<and> fst (handleSubmit env chatId local store) = \<lparr> content_local = [], files_local = [] \<rparr>"
proof -
  let ?r1 = "(addMessage (optimisticUser env chatId local) (setSending True store),
              [Mutation (setSending_action True),
               Mutation (addMessage_action (optimisticUser env chatId local))])"
  obtain res r2 where t: "try_submit env chatId local ?r1 = (res, r2)"
    by (cases "try_submit env chatId local ?r1")
  from try_submit_accepted [OF up sent, of chatId ?r1] t got
  obtain u where "res = Inr \<lparr> content_local = [], files_local = [] \<rparr>"
    and "fst r2 = setMessages ms (addMessage a (updateMessage (tempId env) u (fst ?r1)))"
    by auto
  with handleSubmit_unfold [OF guard, of env chatId store] t show ?thesis
    by (simp add: fst_mutate setSending_def setMessages_def)
qed

theorem successful_submission_mirrors_server_witness:
  "messages (fst (snd (handleSubmit online 1 draft with_reply))) = [question, reply]
   \<and> isSending (fst (snd (handleSubmit online 1 draft with_reply))) = False
   \<and> fst (handleSubmit online 1 draft with_reply) = \<lparr> content_local = [], files_local = [] \<rparr>"
proof -
  have guard: "\<not> (trim (content_local draft) = [] \<and> files_local draft = [])"
    by (simp add: draft_trimmed)
  have up: "\<not> uploads_fail online draft"
    by (simp add: uploads_fail_def online_def offline_def draft_def)
  have sent: "sendMessage_result online = Inr reply"
    by (simp add: online_def)
  have got: "getChatMessages_result online = Inr [question, reply]"
    by (simp add: online_def)
  from successful_submission_mirrors_server [OF guard up sent got, of 1 with_reply]
  show ?thesis .
qed

text \<open>
  Property X2. \<open>sendMessage\<close> resolved and the refresh \<open>getChatMessages\<close> was rejected: the
  \<open>catch\<close> block removes the optimistic message although the server has accepted the
  user's message. When the temporary id is fresh, the store ends with the old list and
  the assistant's answer, without the user's message, and the composer keeps its text and files.
\<close>
theorem failed_refresh_keeps_reply:
  assumes guard: "\<not> (trim (content_local local) = [] \<and> files_local local = [])"
    and up: "\<not> uploads_fail env local"
    and sent: "sendMessage_result env = Inr a"
    and lost: "getChatMessages_result env = Inl err"
    and fresh: "tempId env \<notin> id_msg ` set (messages store)"
    and other: "id_msg a \<noteq> tempId env"
  shows "messages (fst (snd (handleSubmit env chatId local store))) = messages store @ [a]
       \<and> fst (handleSubmit env chatId local store) = local"
proof -
  let ?opt = "optimisticUser env chatId local"
  let ?r1 = "(addMessage ?opt (setSending True store),
              [Mutation (setSending_action True), Mutation (addMessage_action ?opt)])"
  obtain res r2 where t: "try_submit env chatId local ?r1 = (res, r2)"
    by (cases "try_submit env chatId local ?r1")
  from try_submit_accepted [OF up sent, of chatId ?r1] t lost
  obtain u where u: "upd_id_msg u = None" and res: "res = Inl err"
    and r2: "fst r2 = addMessage a (updateMessage (tempId env) u (fst ?r1))"
    by auto
  have fresh': "tempId env \<notin> id_msg ` set (messages (setSending True store))"
    using fresh by (simp add: setSending_def)
  have own: "id_msg ?opt = tempId env"
    by (simp add: optimisticUser_def)
  from removeMessage_own [OF fresh' own other u]
  have "messages (removeMessage (tempId env) (fst r2)) = messages store @ [a]"
    by (simp add: r2 setSending_def)
  with handleSubmit_unfold [OF guard, of env chatId store] t res show ?thesis
    by (simp add: fst_mutate fst_emit setSending_def)
qed

theorem failed_refresh_keeps_reply_witness:
  "messages (fst (snd (handleSubmit stale 1 draft history))) = [question, reply, reply]
   \<and> fst (handleSubmit stale 1 draft history) = draft"
proof -
  have guard: "\<not> (trim (content_local draft) = [] \<and> files_local draft = [])"
    by (simp add: draft_trimmed)
  have up: "\<not> uploads_fail stale draft"
    by (simp add: uploads_fail_def stale_def offline_def draft_def)
  have sent: "sendMessage_result stale = Inr reply"
    by (simp add: stale_def)
  have lost: "getChatMessages_result stale = Inl (ApiError ''timeout of 10000ms exceeded'')"
    by (simp add: stale_def)
  have t: "tempId stale = - 1699999999877"
    by (simp add: tempId_def nextTempId_def stale_def offline_def)
  have fresh: "tempId stale \<notin> id_msg ` set (messages history)"
    by (simp add: t history_def initial_state_def question_def reply_def)
  have other: "id_msg reply \<noteq> tempId stale"
    by (simp add: t reply_def)
  from failed_refresh_keeps_reply [OF guard up sent lost fresh other, of 1] show ?thesis
    by (simp add: history_def initial_state_def)
qed

subsection \<open>Nothing to send\<close>

text \<open>
  Property X3. A submission with nothing to send (the trimmed text is empty and no file is
  attached) returns at the guard: no store action, no API call, the composer unchanged.
\<close>
theorem blank_submission_is_ignored:
  assumes "trim (content_local local) = []" and "files_local local = []"
  shows "handleSubmit env chatId local store = (local, (store, []))"
  using assms by (simp add: handleSubmit_def)

theorem blank_submission_is_ignored_witness:
  "handleSubmit offline 1 blank with_reply = (blank, (with_reply, []))"
proof -
  have "trim (content_local blank) = []"
    by (simp add: blank_def trim_def is_space_def)
  moreover have "files_local blank = []"
    by (simp add: blank_def)
  ultimately show ?thesis
    by (rule blank_submission_is_ignored)
qed


section \<open>Properties of the message editor\<close>








lemma editing_trimmed: "trim (editedContent editing) = ''How often to feed a kitten?''"
  by (simp add: editing_def trim_def is_space_def)



subsection \<open>A rejected save\<close>

text \<open>
  Property X4. An edit that passes the two early returns and whose \<open>updateMessage\<close>
  call is rejected: the store is as it was, the only request is the rejected one (no
  file is deleted), the error is shown, and the editor stays open with its text and
  attachments, \<open>isUpdating\<close> false again.
\<close>
theorem failed_save_leaves_store:
  assumes rejected: "updateMessage_result env = Inl err"
    and filled: "\<not> (trim (editedContent local) = [] \<and> editedFiles local = [])"
    and changed: "\<not> (trim (editedContent local) = content message
                      \<and> isSameFiles message (editedFiles local))"
  shows "fst (snd (handleSave env message snapshot local store)) = store
       \<and> snd (snd (handleSave env message snapshot local store)) =
           [Request (updateMessage_call (id_msg message)
              \<lparr> content_patch = trim (editedContent local),
                files_patch = map file_id (editedFiles local) \<rparr>),
            Rejected err, Alert err]
       \<and> fst (handleSave env message snapshot local store) = local\<lparr>isUpdating := False\<rparr>"
  using assms by (auto simp: handleSave_def Let_def emit_def)

theorem failed_save_leaves_store_witness:
  "fst (snd (handleSave backend_down question [question, reply] editing history)) = history
   \<and> snd (snd (handleSave backend_down question [question, reply] editing history)) =
       [Request (updateMessage_call 11
          \<lparr> content_patch = ''How often to feed a kitten?'', files_patch = [] \<rparr>),
        Rejected (ApiError ''Network Error''), Alert (ApiError ''Network Error'')]
   \<and> fst (handleSave backend_down question [question, reply] editing history) = editing"
proof -
  have rejected: "updateMessage_result backend_down = Inl (ApiError ''Network Error'')"
    by (simp add: backend_down_def)
  have filled: "\<not> (trim (editedContent editing) = [] \<and> editedFiles editing = [])"
    by (simp add: editing_trimmed)
  have changed: "\<not> (trim (editedContent editing) = content question
                      \<and> isSameFiles question (editedFiles editing))"
    by (simp add: editing_trimmed question_def)
  have same: "editing\<lparr>isUpdating := False\<rparr> = editing" "editedFiles editing = []"
    "id_msg question = 11"
    by (simp_all add: editing_def question_def)
  from failed_save_leaves_store [OF rejected filled changed, of "[question, reply]" history]
  show ?thesis
    by (simp add: editing_trimmed same)
qed


section \<open>Properties of audioBufferToWav\<close>

subsection \<open>Every step writes at the end of what is written\<close>




















subsection \<open>Reading the bytes back\<close>

















subsection \<open>The layout of the file\<close>






end
